theory Spec2Isabelle
  imports Complex_Main
begin

section \<open>Arrays, errors and the external collaborators\<close>

text \<open>
  The lag-aware independence test of \<^verbatim>\<open>src/mgcpy/independence_tests/mgcx.py\<close> (class
  \<^verbatim>\<open>MGCX\<close>) is embedded function by function. numpy's floats are modelled as the real
  numbers, so rounding is outside the model; where the source's float arithmetic
  produces \<^verbatim>\<open>nan\<close> or \<^verbatim>\<open>inf\<close> without raising (a division by zero on numpy scalars), the
  outcome of the model is \<open>NonFinite\<close>, because no real number stands for such a
  value.

  A numpy array is one-dimensional (\<open>Arr1\<close>) or two-dimensional (\<open>Arr2\<close>, the list of
  its rows). Only \<^verbatim>\<open>shape[0]\<close> and \<^verbatim>\<open>len(shape)\<close> of an input are read by the source.
\<close>

type_synonym matrix = "real list list"

datatype ndarray = Arr1 "real list" | Arr2 matrix

text \<open>
  Every \<^verbatim>\<open>raise\<close> of the source and of numpy is a value. \<open>AssertionError\<close> is the failed
  \<^verbatim>\<open>assert\<close> on the sample counts at lines 81 and 158 (the specification calls it
  InvalidInputError); \<open>External\<close> is any exception raised inside a collaborator whose
  code is not part of this file (the distance transform, the correlation engine).
\<close>

datatype error =
    AssertionError
  | ValueError
  | IndexError
  | ZeroDivisionError
  | NonFinite
  | External string

type_synonym scale = "nat \<times> nat"

text \<open>
  The collaborators are parameters. \<open>engine\<close> is \<^verbatim>\<open>MGC().test_statistic\<close>: from two
  distance matrices, a statistic and the \<^verbatim>\<open>optimal_scale\<close> entry of its metadata.
  \<open>metric\<close> is the pluggable \<^verbatim>\<open>compute_distance_matrix\<close> function stored in the test
  object, and \<open>distance_transform\<close> is \<^verbatim>\<open>compute_distance(matrix_X, matrix_Y, metric)\<close>.
\<close>

type_synonym engine = "matrix \<Rightarrow> matrix \<Rightarrow> error + (real \<times> scale)"
type_synonym metric = "matrix \<Rightarrow> matrix"
type_synonym distance_transform = "metric \<Rightarrow> matrix \<Rightarrow> matrix \<Rightarrow> error + (matrix \<times> matrix)"

text \<open>The metadata dictionary returned by \<^verbatim>\<open>test_statistic\<close> (lines 113 to 115).\<close>

record metadata =
  optimal_lag :: nat
  optimal_scale :: scale
  dependence_by_lag :: "real list"

text \<open>
  What a result attribute of the test object holds: nothing yet, a value of the model,
  or a value the method computed with a \<^verbatim>\<open>nan\<close> or an infinity in it (see \<open>NonFinite\<close>).
\<close>

datatype 'a attribute = NotAssigned | Assigned 'a | AssignedNonFinite

text \<open>
  The test object. \<^verbatim>\<open>__init__\<close> sets \<^verbatim>\<open>max_lag\<close>, \<^verbatim>\<open>which_test\<close> and \<^verbatim>\<open>mgc\<close>; the base
  class stores \<^verbatim>\<open>compute_distance_matrix\<close>. The four result fields are assigned by
  \<^verbatim>\<open>test_statistic\<close> and \<^verbatim>\<open>p_value\<close>. A name cannot end with an underscore here, so the
  attribute \<^verbatim>\<open>test_statistic_\<close> is the field \<open>test_statistic_attr\<close>, and likewise for the
  other three.
\<close>

record MGCX =
  compute_distance_matrix :: metric
  max_lag :: "int option"
  which_test :: string
  mgc :: engine
  test_statistic_attr :: "real attribute"
  test_statistic_metadata_attr :: "metadata attribute"
  p_value_attr :: "real attribute"
  p_value_metadata_attr :: "real list attribute"

text \<open>
  \<^verbatim>\<open>def __init__(self, compute_distance_matrix=None, max_lag = 0)\<close>. The argument
  \<open>max_lag_arg\<close> is \<open>None\<close> when the caller leaves \<^verbatim>\<open>max_lag\<close> out, and \<open>Some v\<close> when
  the caller passes \<open>v\<close>, where \<open>v = None\<close> is Python's \<^verbatim>\<open>None\<close>. The metric stored by the
  base class and the engine object \<^verbatim>\<open>MGC()\<close> are taken as given.
\<close>

definition MGCX_init :: "metric \<Rightarrow> engine \<Rightarrow> int option option \<Rightarrow> MGCX" where
  "MGCX_init metric_fn mgc_engine max_lag_arg =
     \<lparr> compute_distance_matrix = metric_fn,
       max_lag = (case max_lag_arg of None \<Rightarrow> Some 0 | Some v \<Rightarrow> v),
       which_test = ''mgcx'',
       mgc = mgc_engine,
       test_statistic_attr = NotAssigned,
       test_statistic_metadata_attr = NotAssigned,
       p_value_attr = NotAssigned,
       p_value_metadata_attr = NotAssigned \<rparr>"

subsection \<open>Shapes, reshaping, slicing and fancy indexing\<close>

fun shape0 :: "ndarray \<Rightarrow> nat" where
  "shape0 (Arr1 xs) = length xs"
| "shape0 (Arr2 rows) = length rows"

text \<open>\<^verbatim>\<open>xs.reshape((n, 1))\<close>: a column, or ValueError when the sizes differ.\<close>

definition reshape_n1 :: "nat \<Rightarrow> real list \<Rightarrow> error + matrix" where
  "reshape_n1 n xs = (if length xs = n then Inr (map (\<lambda>x. [x]) xs) else Inl ValueError)"

text \<open>
  Lines 84 to 87 (and 162 to 165): \<^verbatim>\<open>if len(m.shape) == 1: m = m.reshape((n,1))\<close>. An
  array has one dimension exactly when it is an \<open>Arr1\<close>.
\<close>

fun reshape_if_1d :: "nat \<Rightarrow> ndarray \<Rightarrow> error + matrix" where
  "reshape_if_1d n (Arr1 xs) = reshape_n1 n xs"
| "reshape_if_1d n (Arr2 rows) = Inr rows"

text \<open>
  Python's \<^verbatim>\<open>xs[lo:hi]\<close>: a negative bound counts from the end, every bound is clipped
  to the length, and nothing is raised.
\<close>

definition slice_bound :: "int \<Rightarrow> nat \<Rightarrow> nat" where
  "slice_bound b len =
     (if b < 0 then nat (max 0 (b + int len)) else min (nat b) len)"

definition py_slice :: "int \<Rightarrow> int \<Rightarrow> 'a list \<Rightarrow> 'a list" where
  "py_slice lo hi xs =
     (let start = slice_bound lo (length xs);
          stop = slice_bound hi (length xs)
      in take (stop - start) (drop start xs))"

text \<open>\<^verbatim>\<open>A[lo:hi, lo:hi]\<close> on a two-dimensional array.\<close>

definition slice2 :: "int \<Rightarrow> int \<Rightarrow> matrix \<Rightarrow> matrix" where
  "slice2 lo hi A = map (py_slice lo hi) (py_slice lo hi A)"

text \<open>
  \<^verbatim>\<open>A[np.ix_(idx, idx)]\<close>: the sub-matrix of the rows and columns listed in \<open>idx\<close>, in
  that order; IndexError when an index is outside the array.
\<close>

definition ix_select :: "matrix \<Rightarrow> nat list \<Rightarrow> error + matrix" where
  "ix_select A idx =
     (if list_all (\<lambda>i. i < length A \<and> list_all (\<lambda>k. k < length (A ! i)) idx) idx
      then Inr (map (\<lambda>i. map (\<lambda>k. A ! i ! k) idx) idx)
      else Inl IndexError)"

subsection \<open>The ceiling of the square root\<close>

text \<open>
  \<^verbatim>\<open>math.ceil(math.sqrt(n))\<close> and \<^verbatim>\<open>int(np.ceil(np.sqrt(n)))\<close>, computed on integers: the
  least \<open>b\<close> with \<open>n \<le> b * b\<close>, found by counting up. Lemma \<open>ceil_sqrt_real\<close> below
  shows that this is the ceiling of the real square root.
\<close>

function ceil_sqrt_from :: "nat \<Rightarrow> nat \<Rightarrow> nat" where
  "ceil_sqrt_from b n = (if n \<le> b * b then b else ceil_sqrt_from (Suc b) n)"
  by pat_completeness auto
termination
  by (relation "measure (\<lambda>(b, n). n - b * b)") auto

definition ceil_sqrt :: "nat \<Rightarrow> nat" where
  "ceil_sqrt n = ceil_sqrt_from 0 n"

section \<open>The lag search: \<^verbatim>\<open>MGCX.test_statistic\<close>\<close>

text \<open>Line 90: \<^verbatim>\<open>M = self.max_lag if self.max_lag is not None else math.ceil(math.sqrt(n))\<close>.\<close>

definition lag_bound :: "MGCX \<Rightarrow> nat \<Rightarrow> int" where
  "lag_bound self n = (case max_lag self of Some m \<Rightarrow> m | None \<Rightarrow> int (ceil_sqrt n))"

text \<open>
  Lines 102 to 105, the value computed for lag \<open>j\<close>: the engine on
  \<^verbatim>\<open>matrix_X[j:n,j:n]\<close> and \<^verbatim>\<open>matrix_Y[0:(n-j),0:(n-j)]\<close>, then
  \<^verbatim>\<open>(n-j)*np.maximum(0.0, mgc_statistic) / n\<close>. With \<open>n = 0\<close> the float division raises
  nothing and gives \<^verbatim>\<open>nan\<close> or \<^verbatim>\<open>-inf\<close> (the numerator is zero or negative): the value is
  \<open>None\<close> then.
\<close>

definition lag_dependence :: "MGCX \<Rightarrow> nat \<Rightarrow> matrix \<Rightarrow> matrix \<Rightarrow> nat \<Rightarrow> error + (real option \<times> scale)" where
  "lag_dependence self n matrix_X matrix_Y j =
     (let dist_mtx_X = slice2 (int j) (int n) matrix_X;
          dist_mtx_Y = slice2 0 (int n - int j) matrix_Y
      in case mgc self dist_mtx_X dist_mtx_Y of
           Inl e \<Rightarrow> Inl e
         | Inr (mgc_statistic, scale_j) \<Rightarrow>
             Inr (if n = 0 then None
                  else Some (real_of_int (int n - int j) * max 0 mgc_statistic / real n),
                  scale_j))"

text \<open>
  The variables the loop of lines 101 to 109 updates. \<open>all_finite\<close> is not a variable of
  the source: it records that no \<^verbatim>\<open>nan\<close> or \<^verbatim>\<open>-inf\<close> has been stored in
  \<^verbatim>\<open>dependence_by_lag\<close> so far. Once it is false the numbers of the state stand for
  nothing, and the loop goes on for the engine's calls and their exceptions only.
\<close>

record lag_state = metadata +
  max_dependence :: real
  all_finite :: bool

text \<open>
  Lines 105 to 109 for one lag: store the value at index \<open>j\<close> (IndexError outside the
  array) and move the optimum when the value is strictly greater. A \<^verbatim>\<open>nan\<close> or \<^verbatim>\<open>-inf\<close> is
  not greater than \<^verbatim>\<open>max_dependence\<close>, so it leaves the optimum.
\<close>

definition lag_update :: "nat \<Rightarrow> real option \<Rightarrow> scale \<Rightarrow> lag_state \<Rightarrow> error + lag_state" where
  "lag_update j v scale_j st =
     (if j < length (dependence_by_lag st) then
        (case v of
           None \<Rightarrow> Inr (st\<lparr>all_finite := False\<rparr>)
         | Some x \<Rightarrow>
             (let st1 = st\<lparr>dependence_by_lag := (dependence_by_lag st)[j := x]\<rparr>
              in if x > max_dependence st1
                 then Inr (st1\<lparr>max_dependence := x, optimal_lag := j, optimal_scale := scale_j\<rparr>)
                 else Inr st1))
      else Inl IndexError)"

text \<open>The loop \<^verbatim>\<open>for j in range(1,M+1)\<close>, over the list of its lags.\<close>

fun lag_loop :: "MGCX \<Rightarrow> nat \<Rightarrow> matrix \<Rightarrow> matrix \<Rightarrow> nat list \<Rightarrow> lag_state \<Rightarrow> error + lag_state" where
  "lag_loop self n matrix_X matrix_Y [] st = Inr st"
| "lag_loop self n matrix_X matrix_Y (j # js) st =
     (case lag_dependence self n matrix_X matrix_Y j of
        Inl e \<Rightarrow> Inl e
      | Inr (v, scale_j) \<Rightarrow>
          (case lag_update j v scale_j st of
             Inl e \<Rightarrow> Inl e
           | Inr st' \<Rightarrow> lag_loop self n matrix_X matrix_Y js st'))"

text \<open>
  Lines 90 to 117 on the distance matrices. \<^verbatim>\<open>np.zeros(M+1)\<close> raises ValueError for a
  negative size; with \<open>M = -1\<close> the array is empty and the assignment to index 0, after
  the engine's first call, raises IndexError. The statistic is
  \<^verbatim>\<open>np.sum(dependence_by_lag)\<close>. The result is \<open>Inl e\<close> when the exception \<open>e\<close> is raised,
  \<open>Inr (Some r)\<close> when \<open>r\<close> is returned, and \<open>Inr None\<close> when the method returns values that
  are not finite (the sum of an array that holds a \<^verbatim>\<open>nan\<close> or \<^verbatim>\<open>-inf\<close>).
\<close>

definition lag_search_outcome :: "MGCX \<Rightarrow> nat \<Rightarrow> matrix \<Rightarrow> matrix \<Rightarrow> error + (real \<times> metadata) option" where
  "lag_search_outcome self n matrix_X matrix_Y =
     (let M = lag_bound self n in
      if M + 1 < 0 then Inl ValueError
      else case mgc self matrix_X matrix_Y of
        Inl e \<Rightarrow> Inl e
      | Inr (mgc_statistic, scale_0) \<Rightarrow>
          if M + 1 = 0 then Inl IndexError
          else
            (let st0 = \<lparr> optimal_lag = 0,
                        optimal_scale = scale_0,
                        dependence_by_lag = (replicate (nat (M + 1)) 0)[0 := max 0 mgc_statistic],
                        max_dependence = max 0 mgc_statistic,
                        all_finite = True \<rparr>
             in case lag_loop self n matrix_X matrix_Y [1..<nat M + 1] st0 of
                  Inl e \<Rightarrow> Inl e
                | Inr st \<Rightarrow>
                    if all_finite st
                    then Inr (Some (sum_list (dependence_by_lag st),
                                    \<lparr> optimal_lag = optimal_lag st,
                                      optimal_scale = optimal_scale st,
                                      dependence_by_lag = dependence_by_lag st \<rparr>))
                    else Inr None))"

text \<open>The same with the outcome \<open>NonFinite\<close> for values that are not finite.\<close>

definition lag_search :: "MGCX \<Rightarrow> nat \<Rightarrow> matrix \<Rightarrow> matrix \<Rightarrow> error + (real \<times> metadata)" where
  "lag_search self n matrix_X matrix_Y =
     (case lag_search_outcome self n matrix_X matrix_Y of
        Inl e \<Rightarrow> Inl e
      | Inr None \<Rightarrow> Inl NonFinite
      | Inr (Some r) \<Rightarrow> Inr r)"

text \<open>
  Lines 81 to 88: the assertion on the sample counts, the reshaping of one-dimensional
  inputs and the distance transform.
\<close>

definition distance_matrices :: "distance_transform \<Rightarrow> MGCX \<Rightarrow> ndarray \<Rightarrow> ndarray \<Rightarrow> error + (matrix \<times> matrix)" where
  "distance_matrices compute_distance self matrix_X matrix_Y =
     (if shape0 matrix_X \<noteq> shape0 matrix_Y then Inl AssertionError
      else
        (let n = shape0 matrix_X in
         case reshape_if_1d n matrix_X of
           Inl e \<Rightarrow> Inl e
         | Inr X2 \<Rightarrow>
             (case reshape_if_1d n matrix_Y of
                Inl e \<Rightarrow> Inl e
              | Inr Y2 \<Rightarrow> compute_distance (compute_distance_matrix self) X2 Y2)))"

text \<open>
  The values \<^verbatim>\<open>test_statistic\<close> returns, or the exception it raises. The parameter \<^verbatim>\<open>p\<close>
  of the source is never read and has no counterpart here.
\<close>

definition test_statistic_compute :: "distance_transform \<Rightarrow> MGCX \<Rightarrow> ndarray \<Rightarrow> ndarray \<Rightarrow> error + (real \<times> metadata)" where
  "test_statistic_compute compute_distance self matrix_X matrix_Y =
     (case distance_matrices compute_distance self matrix_X matrix_Y of
        Inl e \<Rightarrow> Inl e
      | Inr (dist_X, dist_Y) \<Rightarrow> lag_search self (shape0 matrix_X) dist_X dist_Y)"

text \<open>The three-way outcome of \<^verbatim>\<open>test_statistic\<close>, as for \<open>lag_search_outcome\<close>.\<close>

definition test_statistic_outcome :: "distance_transform \<Rightarrow> MGCX \<Rightarrow> ndarray \<Rightarrow> ndarray \<Rightarrow> error + (real \<times> metadata) option" where
  "test_statistic_outcome compute_distance self matrix_X matrix_Y =
     (case distance_matrices compute_distance self matrix_X matrix_Y of
        Inl e \<Rightarrow> Inl e
      | Inr (dist_X, dist_Y) \<Rightarrow> lag_search_outcome self (shape0 matrix_X) dist_X dist_Y)"

text \<open>
  \<^verbatim>\<open>test_statistic\<close> with its effect on the object: lines 113 to 116 assign
  \<^verbatim>\<open>self.test_statistic_metadata_\<close> and \<^verbatim>\<open>self.test_statistic_\<close> just before the return, so
  a call that raises leaves the object as it was, and a call that returns has assigned
  both, also when the values are not finite.
\<close>

definition test_statistic :: "distance_transform \<Rightarrow> MGCX \<Rightarrow> ndarray \<Rightarrow> ndarray \<Rightarrow> (error + (real \<times> metadata)) \<times> MGCX" where
  "test_statistic compute_distance self matrix_X matrix_Y =
     (case test_statistic_outcome compute_distance self matrix_X matrix_Y of
        Inl e \<Rightarrow> (Inl e, self)
      | Inr None \<Rightarrow>
          (Inl NonFinite,
           self\<lparr>test_statistic_metadata_attr := AssignedNonFinite,
                test_statistic_attr := AssignedNonFinite\<rparr>)
      | Inr (Some (statistic, md)) \<Rightarrow>
          (Inr (statistic, md),
           self\<lparr>test_statistic_metadata_attr := Assigned md,
                test_statistic_attr := Assigned statistic\<rparr>))"



section \<open>The block-bootstrap calibrator: \<^verbatim>\<open>MGCX.p_value\<close>\<close>

subsection \<open>Random block permutations\<close>

text \<open>
  The random number generator is a parameter: a source is an unbounded supply of raw
  naturals, read by position. \<^verbatim>\<open>np.random.choice(a, num)\<close> returns \<open>num\<close> integers of
  \<^verbatim>\<open>range(a)\<close>, drawn with replacement; the model reduces the first \<open>num\<close> raw values
  into that range, so every list of \<open>num\<close> values below \<open>a\<close> is the result for some
  source (lemma \<open>random_choice_any\<close>) and nothing is assumed about which one comes out.
  numpy raises ValueError when \<open>a = 0\<close> and a sample is asked for.
\<close>

type_synonym rng = "nat \<Rightarrow> nat"

definition random_choice :: "rng \<Rightarrow> nat \<Rightarrow> nat \<Rightarrow> error + nat list" where
  "random_choice src a num =
     (if a = 0 \<and> 0 < num then Inl ValueError
      else Inr (map (\<lambda>i. src i mod a) [0..<num]))"

text \<open>The number of block starts drawn: \<^verbatim>\<open>n // block_size + 1\<close>.\<close>

definition num_draws :: "nat \<Rightarrow> nat \<Rightarrow> nat" where
  "num_draws n block_size = n div block_size + 1"

text \<open>
  Lines 175 and 176 (again at 208 and 209):
  \<^verbatim>\<open>np.r_[[np.arange(t, t + block_size) for t in np.random.choice(n, n // block_size + 1)]].flatten()[:n]\<close>
  followed by \<^verbatim>\<open>np.mod(permuted_indices, n)\<close>. The integer division raises
  ZeroDivisionError when \<open>block_size = 0\<close>.
\<close>

definition blocks_of :: "nat \<Rightarrow> nat list \<Rightarrow> nat list" where
  "blocks_of block_size starts = concat (map (\<lambda>t. [t..<t + block_size]) starts)"

definition block_permutation :: "rng \<Rightarrow> nat \<Rightarrow> nat \<Rightarrow> error + nat list" where
  "block_permutation src n block_size =
     (if block_size = 0 then Inl ZeroDivisionError
      else case random_choice src n (num_draws n block_size) of
             Inl e \<Rightarrow> Inl e
           | Inr starts \<Rightarrow> Inr (map (\<lambda>i. i mod n) (take n (blocks_of block_size starts))))"

subsection \<open>The exact path\<close>

text \<open>Lines 174 to 181: one repetition, on the distance matrices.\<close>

definition worker :: "distance_transform \<Rightarrow> MGCX \<Rightarrow> nat \<Rightarrow> nat \<Rightarrow> matrix \<Rightarrow> matrix \<Rightarrow> rng \<Rightarrow> error + real" where
  "worker compute_distance self n block_size matrix_X matrix_Y src =
     (case block_permutation src n block_size of
        Inl e \<Rightarrow> Inl e
      | Inr permuted_indices \<Rightarrow>
          (case ix_select matrix_Y permuted_indices of
             Inl e \<Rightarrow> Inl e
           | Inr permuted_Y \<Rightarrow>
               (case test_statistic_compute compute_distance self (Arr2 matrix_X) (Arr2 permuted_Y) of
                  Inl e \<Rightarrow> Inl e
                | Inr (ret, md) \<Rightarrow> Inr ret)))"

text \<open>
  Line 183: the results of all repetitions, in the order of their indices; an exception
  in a repetition aborts the batch. Which of several failing repetitions is reported
  depends on the scheduling; the model reports the first in index order.
\<close>

fun run_all :: "(nat \<Rightarrow> error + 'a) \<Rightarrow> nat list \<Rightarrow> error + 'a list" where
  "run_all f [] = Inr []"
| "run_all f (rep # reps) =
     (case f rep of
        Inl e \<Rightarrow> Inl e
      | Inr r \<Rightarrow> (case run_all f reps of Inl e \<Rightarrow> Inl e | Inr rs \<Rightarrow> Inr (r # rs)))"

text \<open>
  Lines 196 to 198:
  \<^verbatim>\<open>np.sum(np.greater(test_stats_null, test_statistic)) / replication_factor\<close>, replaced by
  \<^verbatim>\<open>1 / replication_factor\<close> when it is \<^verbatim>\<open>0.0\<close>. With \<open>replication_factor = 0\<close> the numpy
  division gives \<^verbatim>\<open>nan\<close>.
\<close>

definition empirical_p_value :: "real list \<Rightarrow> real \<Rightarrow> int \<Rightarrow> error + real" where
  "empirical_p_value test_stats_null statistic replication_factor =
     (if replication_factor = 0 then Inl NonFinite
      else
        (let p = real (length (filter (\<lambda>s. s > statistic) test_stats_null))
                   / real_of_int replication_factor
         in Inr (if p = 0 then 1 / real_of_int replication_factor else p)))"

subsection \<open>The fast path: \<^verbatim>\<open>MGCX._fast_p_value\<close>\<close>

text \<open>\<^verbatim>\<open>np.mean\<close> and \<^verbatim>\<open>np.std\<close> (the population standard deviation).\<close>

definition np_mean :: "real list \<Rightarrow> real" where
  "np_mean xs = sum_list xs / real (length xs)"

definition np_std :: "real list \<Rightarrow> real" where
  "np_std xs = sqrt (np_mean (map (\<lambda>x. (x - np_mean xs)\<^sup>2) xs))"

text \<open>
  Lines 213 to 217: for each \<open>i\<close> the statistic of the \<open>i\<close>-th diagonal block of
  \<open>subsample_size\<close> observations is stored at index \<open>i\<close> of \<^verbatim>\<open>test_stats_null\<close>.
\<close>

fun subsample_loop :: "distance_transform \<Rightarrow> MGCX \<Rightarrow> matrix \<Rightarrow> matrix \<Rightarrow> nat \<Rightarrow> nat list \<Rightarrow> real list \<Rightarrow> error + real list" where
  "subsample_loop compute_distance self matrix_X permuted_Y subsample_size [] test_stats_null =
     Inr test_stats_null"
| "subsample_loop compute_distance self matrix_X permuted_Y subsample_size (i # rest) test_stats_null =
     (let indices = [subsample_size * i..<subsample_size * (i + 1)] in
      case ix_select matrix_X indices of
        Inl e \<Rightarrow> Inl e
      | Inr sub_matrix_X \<Rightarrow>
          (case ix_select permuted_Y indices of
             Inl e \<Rightarrow> Inl e
           | Inr sub_matrix_Y \<Rightarrow>
               (case test_statistic_compute compute_distance self (Arr2 sub_matrix_X) (Arr2 sub_matrix_Y) of
                  Inl e \<Rightarrow> Inl e
                | Inr (statistic, md) \<Rightarrow>
                    if i < length test_stats_null
                    then subsample_loop compute_distance self matrix_X permuted_Y subsample_size rest
                           (test_stats_null[i := statistic])
                    else Inl IndexError)))"

text \<open>
  Lines 204 to 212: the sizes and the array the loop fills,
  \<^verbatim>\<open>np.zeros(num_samples * subsample_size)\<close>.
\<close>

definition num_samples_of :: "nat \<Rightarrow> nat \<Rightarrow> nat" where
  "num_samples_of n subsample_size = n div subsample_size"

definition initial_null :: "nat \<Rightarrow> nat \<Rightarrow> real list" where
  "initial_null num_samples subsample_size = replicate (num_samples * subsample_size) 0"

text \<open>
  Lines 203 to 225. \<open>norm_cdf\<close> is \<^verbatim>\<open>scipy.stats.norm.cdf(x, loc, scale)\<close>, a parameter. The
  mean of an empty array is \<^verbatim>\<open>nan\<close>, and scipy returns \<^verbatim>\<open>nan\<close> for a scale of zero.
\<close>

definition fast_p_value :: "distance_transform \<Rightarrow> (real \<Rightarrow> real \<Rightarrow> real \<Rightarrow> real) \<Rightarrow> rng \<Rightarrow> MGCX \<Rightarrow> matrix \<Rightarrow> matrix \<Rightarrow> real \<Rightarrow> nat \<Rightarrow> nat \<Rightarrow> error + (real \<times> real list)" where
  "fast_p_value compute_distance norm_cdf src self matrix_X matrix_Y statistic block_size subsample_size =
     (let n = length matrix_X in
      if subsample_size = 0 then Inl ZeroDivisionError
      else
        (let num_samples = num_samples_of n subsample_size in
         case block_permutation src n block_size of
           Inl e \<Rightarrow> Inl e
         | Inr permuted_indices \<Rightarrow>
             (case ix_select matrix_Y permuted_indices of
                Inl e \<Rightarrow> Inl e
              | Inr permuted_Y \<Rightarrow>
                  (case subsample_loop compute_distance self matrix_X permuted_Y subsample_size
                          [0..<num_samples] (initial_null num_samples subsample_size) of
                     Inl e \<Rightarrow> Inl e
                   | Inr test_stats_null \<Rightarrow>
                       if test_stats_null = [] then Inl NonFinite
                       else
                         (let mu = np_mean test_stats_null;
                              sigma = np_std test_stats_null / sqrt (real num_samples)
                          in if sigma = 0 then Inl NonFinite
                             else Inr (1 - norm_cdf statistic mu sigma, test_stats_null))))))"

subsection \<open>\<^verbatim>\<open>p_value\<close>\<close>

text \<open>
  Lines 158 to 201. The result is the pair of the p-value and the null distribution
  (the only entry of the metadata dictionary). \<open>rngs rep\<close> is the random source of
  repetition \<open>rep\<close>; the fast path permutes once, with \<open>rngs 0\<close>. The fields of the object
  after \<^verbatim>\<open>p_value\<close> depend on whether the repetitions run in the caller's process, and
  are not modelled.
\<close>

definition p_value :: "distance_transform \<Rightarrow> (real \<Rightarrow> real \<Rightarrow> real \<Rightarrow> real) \<Rightarrow> (nat \<Rightarrow> rng) \<Rightarrow> MGCX \<Rightarrow> ndarray \<Rightarrow> ndarray \<Rightarrow> int \<Rightarrow> bool \<Rightarrow> error + (real \<times> real list)" where
  "p_value compute_distance norm_cdf rngs self matrix_X matrix_Y replication_factor is_fast =
     (case distance_matrices compute_distance self matrix_X matrix_Y of
        Inl e \<Rightarrow> Inl e
      | Inr (dist_X, dist_Y) \<Rightarrow>
          (let n = shape0 matrix_X in
           case test_statistic_compute compute_distance self (Arr2 dist_X) (Arr2 dist_Y) of
             Inl e \<Rightarrow> Inl e
           | Inr (statistic, md) \<Rightarrow>
               (let block_size = ceil_sqrt n in
                if is_fast
                then fast_p_value compute_distance norm_cdf (rngs 0) self dist_X dist_Y statistic block_size 10
                else
                  (case run_all (\<lambda>rep. worker compute_distance self n block_size dist_X dist_Y (rngs rep))
                          [0..<nat replication_factor] of
                     Inl e \<Rightarrow> Inl e
                   | Inr test_stats_null \<Rightarrow>
                       (case empirical_p_value test_stats_null statistic replication_factor of
                          Inl e \<Rightarrow> Inl e
                        | Inr p \<Rightarrow> Inr (p, test_stats_null))))))"

section \<open>Sub-matrices as the specification describes them\<close>



definition square :: "nat \<Rightarrow> matrix \<Rightarrow> bool" where
  "square n A = (length A = n \<and> list_all (\<lambda>row. length row = n) A)"

section \<open>The contract of the correlation engine\<close>


section \<open>Concrete collaborators and inputs\<close>

text \<open>
  Stand-ins for the collaborators, used where a statement is evaluated on a concrete
  input. The transform applies the metric to each matrix, the metric takes its input to
  be a distance matrix already, and the engine returns the sum of the entry-wise products
  of its two arguments plus the number of rows of the second. The failing variants raise
  at every call.
\<close>

definition demo_transform :: distance_transform where
  "demo_transform metric_fn A B = Inr (metric_fn A, metric_fn B)"

definition demo_metric :: metric where
  "demo_metric A = A"

definition demo_engine :: engine where
  "demo_engine A B =
     Inr (sum_list (map2 (\<lambda>a b. sum_list (map2 (*) a b)) A B) + real (length B),
          (length A, length B))"

definition failing_transform :: distance_transform where
  "failing_transform metric_fn A B = Inl (External ''compute_distance'')"

definition failing_engine :: engine where
  "failing_engine A B = Inl (External ''mgc'')"

definition demo_cdf :: "real \<Rightarrow> real \<Rightarrow> real \<Rightarrow> real" where
  "demo_cdf x loc scl = 1 / 2"

text \<open>Distance matrices of the points 0, 1, 2 and of the points 0, 4, 1.\<close>

definition demo_X :: matrix where
  "demo_X = [[0, 1, 2], [1, 0, 1], [2, 1, 0]]"

definition demo_Y :: matrix where
  "demo_Y = [[0, 4, 1], [4, 0, 3], [1, 3, 0]]"

text \<open>
  Random sources: repetition 0 reads 2, 1, 1, ... and every other repetition reads
  zeros.
\<close>

definition demo_rngs :: "nat \<Rightarrow> rng" where
  "demo_rngs rep i = (if rep = 0 then (if i = 0 then 2 else 1) else 0)"

definition demo_test :: MGCX where
  "demo_test = MGCX_init demo_metric demo_engine None"

definition failing_test :: MGCX where
  "failing_test = MGCX_init demo_metric failing_engine None"

text \<open>A test object constructed with \<^verbatim>\<open>max_lag=2\<close>.\<close>

definition lagged_test :: MGCX where
  "lagged_test = MGCX_init demo_metric demo_engine (Some (Some 2))"

text \<open>The distance matrix of ten coinciding points.\<close>

definition zeros10 :: matrix where
  "zeros10 = replicate 10 (replicate 10 0)"




text \<open>
  The city-block distance between the rows of a data matrix, and a test object that
  uses it.
\<close>

definition l1_metric :: metric where
  "l1_metric A = map (\<lambda>a. map (\<lambda>b. sum_list (map2 (\<lambda>x y. \<bar>x - y\<bar>) a b)) A) A"

definition column_test :: MGCX where
  "column_test = MGCX_init l1_metric demo_engine None"

text \<open>Random sources that read zeros only.\<close>

definition zero_rngs :: "nat \<Rightarrow> rng" where
  "zero_rngs rep i = 0"


section \<open>Rejection of inputs with different sample counts\<close>

lemma distance_matrices_mismatch:
  "shape0 X \<noteq> shape0 Y \<Longrightarrow> distance_matrices cd self X Y = Inl AssertionError"
  by (simp add: distance_matrices_def)

text \<open>
  Claim C7. When the first dimensions of the two inputs differ, \<^verbatim>\<open>test_statistic\<close> and
  \<^verbatim>\<open>p_value\<close> both fail with the error of the entry assertion (the specification's
  InvalidInputError). The failure precedes every call of a collaborator: it is the
  result for every distance transform and every engine, also for those that would raise
  themselves, and \<^verbatim>\<open>test_statistic\<close> leaves the object untouched.
\<close>

theorem shape_mismatch_rejected:
  assumes "shape0 matrix_X \<noteq> shape0 matrix_Y"
  shows "test_statistic compute_distance self matrix_X matrix_Y = (Inl AssertionError, self) \<and>
         p_value compute_distance norm_cdf rngs self matrix_X matrix_Y replication_factor is_fast
           = Inl AssertionError"
  using assms
  by (simp add: test_statistic_def test_statistic_outcome_def p_value_def
      distance_matrices_mismatch)

theorem shape_mismatch_rejected_witness:
  "shape0 (Arr2 [[0]]) \<noteq> shape0 (Arr1 [1, 2]) \<and>
   test_statistic failing_transform failing_test (Arr2 [[0]]) (Arr1 [1, 2])
     = (Inl AssertionError, failing_test) \<and>
   p_value failing_transform demo_cdf demo_rngs failing_test (Arr2 [[0]]) (Arr1 [1, 2]) 1000 True
     = Inl AssertionError"
proof -
  have differ: "shape0 (Arr2 [[0]]) \<noteq> shape0 (Arr1 [1, 2])"
    by simp
  show ?thesis
    using differ
      shape_mismatch_rejected [OF differ, of failing_transform failing_test demo_cdf demo_rngs 1000 True]
    by simp
qed

section \<open>One-dimensional inputs\<close>

text \<open>
  The first stage of both methods on one-dimensional inputs: the only rejection is that
  of different sample counts, and the distance transform receives the column matrices.
\<close>

lemma distance_matrices_Arr1_Arr1:
  "distance_matrices cd self (Arr1 xs) (Arr1 ys) =
     (if length xs \<noteq> length ys then Inl AssertionError
      else cd (compute_distance_matrix self) (map (\<lambda>x. [x]) xs) (map (\<lambda>y. [y]) ys))"
  by (simp add: distance_matrices_def reshape_n1_def)

lemma distance_matrices_Arr1_Arr2:
  "distance_matrices cd self (Arr1 xs) (Arr2 B) =
     (if length xs \<noteq> length B then Inl AssertionError
      else cd (compute_distance_matrix self) (map (\<lambda>x. [x]) xs) B)"
  by (simp add: distance_matrices_def reshape_n1_def)

lemma distance_matrices_Arr2_Arr1:
  "distance_matrices cd self (Arr2 A) (Arr1 ys) =
     (if length A \<noteq> length ys then Inl AssertionError
      else cd (compute_distance_matrix self) A (map (\<lambda>y. [y]) ys))"
  by (simp add: distance_matrices_def reshape_n1_def)

lemma distance_matrices_column_X:
  "distance_matrices cd self (Arr1 xs) Y = distance_matrices cd self (Arr2 (map (\<lambda>x. [x]) xs)) Y"
  by (simp add: distance_matrices_def reshape_n1_def)

lemma distance_matrices_column_Y:
  "distance_matrices cd self X (Arr1 ys) = distance_matrices cd self X (Arr2 (map (\<lambda>y. [y]) ys))"
  by (simp add: distance_matrices_def reshape_n1_def Let_def split: sum.splits)

lemma test_statistic_outcome_column_X:
  "test_statistic_outcome cd self (Arr1 xs) Y
     = test_statistic_outcome cd self (Arr2 (map (\<lambda>x. [x]) xs)) Y"
  unfolding test_statistic_outcome_def distance_matrices_column_X shape0.simps length_map
  by (rule refl)

lemma test_statistic_outcome_column_Y:
  "test_statistic_outcome cd self X (Arr1 ys)
     = test_statistic_outcome cd self X (Arr2 (map (\<lambda>y. [y]) ys))"
  unfolding test_statistic_outcome_def distance_matrices_column_Y
  by (rule refl)

lemma p_value_column_X:
  "p_value cd cdf rngs self (Arr1 xs) Y rf is_fast
     = p_value cd cdf rngs self (Arr2 (map (\<lambda>x. [x]) xs)) Y rf is_fast"
  unfolding p_value_def distance_matrices_column_X shape0.simps length_map
  by (rule refl)

lemma p_value_column_Y:
  "p_value cd cdf rngs self X (Arr1 ys) rf is_fast
     = p_value cd cdf rngs self X (Arr2 (map (\<lambda>y. [y]) ys)) rf is_fast"
  unfolding p_value_def distance_matrices_column_Y
  by (rule refl)

text \<open>
  Claim C10. A one-dimensional array given for \<open>matrix_X\<close> or for \<open>matrix_Y\<close> is not
  rejected for its dimension: the entry stage of \<^verbatim>\<open>test_statistic\<close> and \<^verbatim>\<open>p_value\<close> rejects
  one-dimensional inputs only when their lengths differ, and otherwise hands the distance
  transform the column matrices with one entry per row; \<^verbatim>\<open>test_statistic\<close> (result and
  object) and \<^verbatim>\<open>p_value\<close> return exactly what they return for the explicit column matrix.
\<close>

theorem one_dimensional_input_reshaped:
  "distance_matrices cd self (Arr1 xs) (Arr1 ys) =
     (if length xs \<noteq> length ys then Inl AssertionError
      else cd (compute_distance_matrix self) (map (\<lambda>x. [x]) xs) (map (\<lambda>y. [y]) ys)) \<and>
   distance_matrices cd self (Arr1 xs) (Arr2 B) =
     (if length xs \<noteq> length B then Inl AssertionError
      else cd (compute_distance_matrix self) (map (\<lambda>x. [x]) xs) B) \<and>
   distance_matrices cd self (Arr2 A) (Arr1 ys) =
     (if length A \<noteq> length ys then Inl AssertionError
      else cd (compute_distance_matrix self) A (map (\<lambda>y. [y]) ys)) \<and>
   test_statistic cd self (Arr1 xs) Y = test_statistic cd self (Arr2 (map (\<lambda>x. [x]) xs)) Y \<and>
   test_statistic cd self X (Arr1 ys) = test_statistic cd self X (Arr2 (map (\<lambda>y. [y]) ys)) \<and>
   p_value cd cdf rngs self (Arr1 xs) Y rf is_fast
     = p_value cd cdf rngs self (Arr2 (map (\<lambda>x. [x]) xs)) Y rf is_fast \<and>
   p_value cd cdf rngs self X (Arr1 ys) rf is_fast
     = p_value cd cdf rngs self X (Arr2 (map (\<lambda>y. [y]) ys)) rf is_fast"
  unfolding test_statistic_def
  using distance_matrices_Arr1_Arr1 [of cd self xs ys]
    distance_matrices_Arr1_Arr2 [of cd self xs B]
    distance_matrices_Arr2_Arr1 [of cd self A ys]
    test_statistic_outcome_column_X [of cd self xs Y]
    test_statistic_outcome_column_Y [of cd self X ys]
    p_value_column_X [of cd cdf rngs self xs Y rf is_fast]
    p_value_column_Y [of cd cdf rngs self X ys rf is_fast]
  by simp

section \<open>The default lag bound\<close>

lemma ceil_sqrt_from_least:
  "(\<forall>c<b. c * c < n) \<Longrightarrow>
   n \<le> ceil_sqrt_from b n * ceil_sqrt_from b n \<and> (\<forall>c < ceil_sqrt_from b n. c * c < n)"
proof (induction b n rule: ceil_sqrt_from.induct)
  case (1 b n)
  show ?case
  proof (cases "n \<le> b * b")
    case True
    then show ?thesis using "1.prems" by simp
  next
    case False
    have "\<forall>c<Suc b. c * c < n" using False "1.prems" by (auto simp: less_Suc_eq)
    then show ?thesis using "1.IH"[OF False] False
      by (metis ceil_sqrt_from.simps)
  qed
qed

lemma ceil_sqrt_least: "n \<le> ceil_sqrt n * ceil_sqrt n \<and> (\<forall>c < ceil_sqrt n. c * c < n)"
  unfolding ceil_sqrt_def by (rule ceil_sqrt_from_least) simp

lemma ceil_sqrt_real: "int (ceil_sqrt n) = \<lceil>sqrt (real n)\<rceil>"
proof -
  define c where "c = ceil_sqrt n"
  have up: "n \<le> c * c" and low: "\<forall>d<c. d * d < n"
    using ceil_sqrt_least [of n] by (simp_all add: c_def)
  have "sqrt (real n) \<le> sqrt (real (c * c))"
    using up by (simp only: real_sqrt_le_iff of_nat_le_iff)
  then have le: "sqrt (real n) \<le> real c" by simp
  have gt: "real c - 1 < sqrt (real n)"
  proof (cases c)
    case 0
    have "0 \<le> sqrt (real n)" by simp
    then show ?thesis using 0 by linarith
  next
    case (Suc d)
    then have "d * d < n" using low by simp
    then have "sqrt (real (d * d)) < sqrt (real n)"
      by (simp only: real_sqrt_less_iff of_nat_less_iff)
    then show ?thesis using Suc by simp
  qed
  have "\<lceil>sqrt (real n)\<rceil> = int c"
    by (rule ceiling_unique) (use le gt in simp_all)
  then show ?thesis by (simp add: c_def)
qed

lemma ceil_sqrt_pos: "1 \<le> n \<Longrightarrow> 1 \<le> ceil_sqrt n"
  using ceil_sqrt_least [of n] by (cases "ceil_sqrt n") auto

lemma test_statistic_compute_outcome:
  "test_statistic_compute cd self X Y =
     (case test_statistic_outcome cd self X Y of
        Inl e \<Rightarrow> Inl e
      | Inr None \<Rightarrow> Inl NonFinite
      | Inr (Some r) \<Rightarrow> Inr r)"
  by (simp add: test_statistic_compute_def test_statistic_outcome_def lag_search_def
      split: sum.splits prod.splits)

lemma fst_test_statistic:
  "fst (test_statistic cd self X Y) = test_statistic_compute cd self X Y"
  by (simp add: test_statistic_def test_statistic_compute_outcome
      split: sum.splits prod.splits option.splits)

lemma demo_lag0_run:
  "test_statistic_compute demo_transform demo_test (Arr2 demo_X) (Arr2 demo_Y)
     = Inr (21, \<lparr>optimal_lag = 0, optimal_scale = (3, 3), dependence_by_lag = [21]\<rparr>)"
  by code_simp

text \<open>
  Claim C4, as amended. The lag bound \<open>M\<close> of \<^verbatim>\<open>test_statistic\<close> is the ceiling of the
  square root of \<open>n\<close> when the object's \<^verbatim>\<open>max_lag\<close> is \<^verbatim>\<open>None\<close>, which an object has only
  when its constructor was given \<^verbatim>\<open>max_lag=None\<close>. A constructor call that leaves
  \<^verbatim>\<open>max_lag\<close> out stores the default 0, and then \<open>M = 0\<close>; an integer passed as
  \<^verbatim>\<open>max_lag\<close> is \<open>M\<close> itself.
\<close>

theorem lag_bound_by_constructor_argument:
  "lag_bound (MGCX_init metric_fn mgc_engine (Some None)) n = \<lceil>sqrt (real n)\<rceil> \<and>
   lag_bound (MGCX_init metric_fn mgc_engine None) n = 0 \<and>
   lag_bound (MGCX_init metric_fn mgc_engine (Some (Some m))) n = m"
  by (simp add: lag_bound_def MGCX_init_def ceil_sqrt_real)

text \<open>
  The claim as stated fails for three observations: the object constructed without
  \<^verbatim>\<open>max_lag\<close> uses the bound 0, not 2, and reports one lag only.
\<close>

theorem default_lag_bound_counterexample:
  "lag_bound demo_test (shape0 (Arr2 demo_X)) = 0 \<and>
   \<lceil>sqrt (real (shape0 (Arr2 demo_X)))\<rceil> = 2 \<and>
   fst (test_statistic demo_transform demo_test (Arr2 demo_X) (Arr2 demo_Y))
     = Inr (21, \<lparr>optimal_lag = 0, optimal_scale = (3, 3), dependence_by_lag = [21]\<rparr>)"
proof -
  have n: "shape0 (Arr2 demo_X) = 3" by (simp add: demo_X_def)
  have "ceil_sqrt 3 = 2" by code_simp
  then have "\<lceil>sqrt (real 3)\<rceil> = 2" using ceil_sqrt_real [of 3] by simp
  moreover have "lag_bound demo_test 3 = 0"
    by (simp add: lag_bound_def demo_test_def MGCX_init_def)
  ultimately show ?thesis
    unfolding n fst_test_statistic demo_lag0_run by simp
qed

section \<open>The values stored per lag and their sum\<close>

lemma lag_update_Inr:
  assumes "lag_update j v sc st = Inr st'"
  shows "j < length (dependence_by_lag st) \<and>
         (case v of
            None \<Rightarrow> \<not> all_finite st'
          | Some x \<Rightarrow> dependence_by_lag st' = (dependence_by_lag st)[j := x] \<and>
                      all_finite st' = all_finite st)"
  using assms by (auto simp: lag_update_def Let_def split: if_splits option.splits)

text \<open>Once a value that is not finite has been stored, the state stays marked.\<close>

lemma lag_update_marked:
  "lag_update j v sc st = Inr st' \<Longrightarrow> all_finite st' \<Longrightarrow> all_finite st"
  by (auto simp: lag_update_def Let_def split: if_splits option.splits)

lemma lag_loop_marked:
  "lag_loop self n A B js st = Inr st' \<Longrightarrow> all_finite st' \<Longrightarrow> all_finite st"
proof (induction js arbitrary: st)
  case Nil
  then show ?case by simp
next
  case (Cons j js)
  then show ?case
    by (auto split: sum.splits prod.splits dest: lag_update_marked)
qed

text \<open>
  When all stored values are finite, the loop keeps the length of the array, leaves the
  entries of the lags it does not visit, and stores at each visited lag the value
  computed for it.
\<close>

lemma lag_loop_invariant:
  assumes "lag_loop self n A B js st = Inr st'" and "all_finite st'"
  shows "length (dependence_by_lag st') = length (dependence_by_lag st) \<and>
         (\<forall>i. i \<notin> set js \<longrightarrow> dependence_by_lag st' ! i = dependence_by_lag st ! i) \<and>
         (distinct js \<longrightarrow>
            (\<forall>j\<in>set js. \<exists>v sc. lag_dependence self n A B j = Inr (Some v, sc) \<and>
                                   dependence_by_lag st' ! j = v))"
  using assms
proof (induction js arbitrary: st)
  case Nil
  then show ?case by simp
next
  case (Cons j js)
  from Cons.prems(1) obtain v sc st1 where
    dep: "lag_dependence self n A B j = Inr (v, sc)" and
    upd: "lag_update j v sc st = Inr st1" and
    rest: "lag_loop self n A B js st1 = Inr st'"
    by (auto split: sum.splits prod.splits)
  have fin1: "all_finite st1" using lag_loop_marked [OF rest Cons.prems(2)] .
  obtain x where v: "v = Some x"
    using lag_update_Inr [OF upd] fin1 by (cases v) auto
  have u: "j < length (dependence_by_lag st) \<and>
           dependence_by_lag st1 = (dependence_by_lag st)[j := x]"
    using lag_update_Inr [OF upd] v by simp
  note ih = Cons.IH [OF rest Cons.prems(2)]
  have len: "length (dependence_by_lag st') = length (dependence_by_lag st)"
    using ih u by simp
  have frame: "\<forall>i. i \<notin> set (j # js) \<longrightarrow> dependence_by_lag st' ! i = dependence_by_lag st ! i"
    using ih u by simp
  have vals: "distinct (j # js) \<longrightarrow>
       (\<forall>k\<in>set (j # js). \<exists>v sc. lag_dependence self n A B k = Inr (Some v, sc) \<and>
                                   dependence_by_lag st' ! k = v)"
  proof (intro impI ballI)
    fix k
    assume d: "distinct (j # js)" and k: "k \<in> set (j # js)"
    show "\<exists>v sc. lag_dependence self n A B k = Inr (Some v, sc) \<and> dependence_by_lag st' ! k = v"
    proof (cases "k = j")
      case True
      then have "k \<notin> set js" using d by simp
      then have "dependence_by_lag st' ! k = dependence_by_lag st1 ! k" using ih by simp
      also have "\<dots> = x" using u True by simp
      finally show ?thesis using dep v True by blast
    next
      case False
      then have "k \<in> set js" using k by simp
      then show ?thesis using ih d by simp
    qed
  qed
  show ?case using len frame vals by blast
qed

lemma lag_search_Some:
  "lag_search self n A B = Inr r \<Longrightarrow> lag_search_outcome self n A B = Inr (Some r)"
  by (auto simp: lag_search_def split: sum.splits option.splits)

lemma lag_search_Inr:
  assumes "lag_search self n A B = Inr (statistic, md)"
  shows "0 \<le> lag_bound self n \<and>
         length (dependence_by_lag md) = nat (lag_bound self n) + 1 \<and>
         statistic = sum_list (dependence_by_lag md) \<and>
         (\<exists>s0 sc. mgc self A B = Inr (s0, sc) \<and> dependence_by_lag md ! 0 = max 0 s0) \<and>
         (\<forall>j. 1 \<le> j \<and> j \<le> nat (lag_bound self n) \<longrightarrow>
            (\<exists>v sc. lag_dependence self n A B j = Inr (Some v, sc) \<and>
                    dependence_by_lag md ! j = v))"
proof -
  define M where "M = lag_bound self n"
  define js where "js = [1..<nat M + 1]"
  note out = lag_search_Some [OF assms]
  have size_ok: "\<not> M + 1 < 0"
    using out by (auto simp: lag_search_outcome_def Let_def M_def)
  obtain s0 sc0 where eng: "mgc self A B = Inr (s0, sc0)"
    using out size_ok by (cases "mgc self A B") (auto simp: lag_search_outcome_def Let_def M_def)
  have nonempty: "M + 1 \<noteq> 0"
    using out size_ok eng by (auto simp: lag_search_outcome_def Let_def M_def)
  have M0: "0 \<le> M" using size_ok nonempty by linarith
  define st0 where "st0 = \<lparr> optimal_lag = 0, optimal_scale = sc0,
               dependence_by_lag = (replicate (nat (M + 1)) 0)[0 := max 0 s0],
               max_dependence = max 0 s0, all_finite = True \<rparr>"
  have unfolded: "lag_search_outcome self n A B =
      (case lag_loop self n A B js st0 of
         Inl e \<Rightarrow> Inl e
       | Inr st \<Rightarrow>
           if all_finite st
           then Inr (Some (sum_list (dependence_by_lag st),
                       \<lparr> optimal_lag = optimal_lag st, optimal_scale = optimal_scale st,
                         dependence_by_lag = dependence_by_lag st \<rparr>))
           else Inr None)"
    unfolding lag_search_outcome_def Let_def M_def [symmetric] js_def st0_def
    using size_ok nonempty eng by simp
  obtain st where loop: "lag_loop self n A B js st0 = Inr st"
    and fin: "all_finite st"
    and stat: "statistic = sum_list (dependence_by_lag st)"
    and md: "dependence_by_lag md = dependence_by_lag st"
    using out unfolding unfolded
    by (cases "lag_loop self n A B js st0") (auto split: if_splits)
  note inv = lag_loop_invariant [OF loop fin]
  have len: "length (dependence_by_lag st) = nat M + 1"
    using inv M0 by (simp add: st0_def nat_add_distrib)
  have zero: "dependence_by_lag st ! 0 = max 0 s0"
  proof -
    have "0 \<notin> set js" by (auto simp: js_def)
    then have "dependence_by_lag st ! 0 = dependence_by_lag st0 ! 0"
      using inv by simp
    then show ?thesis using M0 by (simp add: st0_def nat_add_distrib)
  qed
  have lags: "\<forall>j. 1 \<le> j \<and> j \<le> nat M \<longrightarrow>
            (\<exists>v sc. lag_dependence self n A B j = Inr (Some v, sc) \<and>
                    dependence_by_lag st ! j = v)"
  proof (intro allI impI)
    fix j assume "1 \<le> j \<and> j \<le> nat M"
    then have "j \<in> set js" by (auto simp: js_def)
    moreover have "distinct js" by (simp add: js_def)
    ultimately show "\<exists>v sc. lag_dependence self n A B j = Inr (Some v, sc) \<and>
                            dependence_by_lag st ! j = v"
      using inv by blast
  qed
  show ?thesis
    using M0 len stat eng zero lags unfolding md M_def by blast
qed

lemma test_statistic_compute_Inr:
  assumes "test_statistic_compute cd self X Y = Inr (statistic, md)"
  shows "\<exists>dist_X dist_Y. distance_matrices cd self X Y = Inr (dist_X, dist_Y) \<and>
           lag_search self (shape0 X) dist_X dist_Y = Inr (statistic, md)"
  using assms by (auto simp: test_statistic_compute_def split: sum.splits prod.splits)

lemma lagged_run:
  "test_statistic_compute demo_transform lagged_test (Arr2 demo_X) (Arr2 demo_Y)
     = Inr (28, \<lparr>optimal_lag = 0, optimal_scale = (3, 3),
                 dependence_by_lag = [21, 20 / 3, 1 / 3]\<rparr>)"
  by code_simp

lemma lagged_bound: "lag_bound lagged_test n = 2"
  by (simp add: lag_bound_def lagged_test_def MGCX_init_def)

text \<open>
  Claim C6. Whenever \<^verbatim>\<open>test_statistic\<close> returns, the lag bound \<open>M\<close> is not negative,
  \<^verbatim>\<open>dependence_by_lag\<close> has the \<open>M + 1\<close> entries of the lags 0 to \<open>M\<close>, and the statistic
  returned is exactly the sum of these entries, with no further factor.
\<close>

theorem statistic_is_sum_of_lags:
  assumes "fst (test_statistic compute_distance self matrix_X matrix_Y) = Inr (statistic, md)"
  shows "0 \<le> lag_bound self (shape0 matrix_X) \<and>
         length (dependence_by_lag md) = nat (lag_bound self (shape0 matrix_X)) + 1 \<and>
         statistic = (\<Sum>j = 0..nat (lag_bound self (shape0 matrix_X)). dependence_by_lag md ! j)"
proof -
  obtain dist_X dist_Y where
    ls: "lag_search self (shape0 matrix_X) dist_X dist_Y = Inr (statistic, md)"
    using test_statistic_compute_Inr assms unfolding fst_test_statistic by blast
  note parts = lag_search_Inr [OF ls]
  have "sum_list (dependence_by_lag md)
          = (\<Sum>j = 0..<length (dependence_by_lag md). dependence_by_lag md ! j)"
    by (rule sum_list_sum_nth)
  also have "\<dots> = (\<Sum>j = 0..nat (lag_bound self (shape0 matrix_X)). dependence_by_lag md ! j)"
    using parts by (simp add: atLeastLessThanSuc_atLeastAtMost)
  finally show ?thesis using parts by simp
qed

text \<open>An instance: three observations and \<^verbatim>\<open>max_lag=2\<close>.\<close>

theorem statistic_is_sum_of_lags_witness:
  "fst (test_statistic demo_transform lagged_test (Arr2 demo_X) (Arr2 demo_Y))
     = Inr (28, \<lparr>optimal_lag = 0, optimal_scale = (3, 3),
                 dependence_by_lag = [21, 20 / 3, 1 / 3]\<rparr>) \<and>
   length [21, 20 / 3, 1 / 3 :: real] = nat (lag_bound lagged_test (shape0 (Arr2 demo_X))) + 1 \<and>
   (28 :: real) = (\<Sum>j = 0..nat (lag_bound lagged_test (shape0 (Arr2 demo_X))).
                     [21, 20 / 3, 1 / 3] ! j)"
proof -
  have run: "fst (test_statistic demo_transform lagged_test (Arr2 demo_X) (Arr2 demo_Y))
     = Inr (28, \<lparr>optimal_lag = 0, optimal_scale = (3, 3),
                 dependence_by_lag = [21, 20 / 3, 1 / 3]\<rparr>)"
    unfolding fst_test_statistic by (rule lagged_run)
  show ?thesis
    using run statistic_is_sum_of_lags [OF run] by simp
qed





















section \<open>The effect of \<^verbatim>\<open>test_statistic\<close> on the caller's objects\<close>


text \<open>
  Without observations and with \<^verbatim>\<open>max_lag=2\<close> the division by \<open>n\<close> at line 105 yields values
  that are not finite; the method still returns and has assigned both result fields.
\<close>

lemma no_observations_run:
  "test_statistic demo_transform lagged_test (Arr2 []) (Arr2 [])
     = (Inl NonFinite,
        lagged_test\<lparr>test_statistic_metadata_attr := AssignedNonFinite,
                    test_statistic_attr := AssignedNonFinite\<rparr>)"
proof -
  have "test_statistic_outcome demo_transform lagged_test (Arr2 []) (Arr2 []) = Inr None"
    by code_simp
  then show ?thesis by (simp add: test_statistic_def)
qed



section \<open>Block permutations\<close>

lemma random_choice_Inr:
  "1 \<le> a \<Longrightarrow> random_choice src a num = Inr (map (\<lambda>i. src i mod a) [0..<num])"
  by (simp add: random_choice_def)

text \<open>Every list of values below \<open>a\<close> is drawn from some source.\<close>

lemma random_choice_any:
  assumes "\<forall>d\<in>set ds. d < a"
  shows "random_choice (\<lambda>i. ds ! i) a (length ds) = Inr ds"
proof -
  have "map (\<lambda>i. ds ! i mod a) [0..<length ds] = ds"
    using assms by (intro nth_equalityI) simp_all
  moreover have "\<not> (a = 0 \<and> 0 < length ds)" using assms by (cases ds) auto
  ultimately show ?thesis by (simp add: random_choice_def)
qed

lemma length_blocks_of: "length (blocks_of b starts) = b * length starts"
  by (induction starts) (simp_all add: blocks_of_def)

text \<open>The blocks drawn hold at least \<open>n\<close> indices.\<close>

lemma draws_cover:
  assumes "1 \<le> b"
  shows "n \<le> b * num_draws n b"
proof -
  have "n = b * (n div b) + n mod b" by simp
  moreover have "n mod b < b" using assms by simp
  ultimately have "n < b * (n div b) + b" by linarith
  then show ?thesis by (simp add: num_draws_def)
qed

lemma block_permutation_Inr:
  assumes "1 \<le> n"
  shows "block_permutation src n (ceil_sqrt n)
           = Inr (map (\<lambda>i. i mod n)
                   (take n (blocks_of (ceil_sqrt n)
                      (map (\<lambda>i. src i mod n) [0..<num_draws n (ceil_sqrt n)]))))"
  using assms ceil_sqrt_pos [OF assms]
  by (simp add: block_permutation_def random_choice_Inr)

lemma block_permutation_shape:
  assumes "1 \<le> n" and "block_permutation src n (ceil_sqrt n) = Inr idx"
  shows "length idx = n \<and> (\<forall>i\<in>set idx. i < n)"
proof -
  define starts where "starts = map (\<lambda>i. src i mod n) [0..<num_draws n (ceil_sqrt n)]"
  have idx: "idx = map (\<lambda>i. i mod n) (take n (blocks_of (ceil_sqrt n) starts))"
    using assms(2) unfolding block_permutation_Inr [OF assms(1)] starts_def by simp
  have "n \<le> length (blocks_of (ceil_sqrt n) starts)"
    using draws_cover [OF ceil_sqrt_pos [OF assms(1)], of n]
    by (simp add: length_blocks_of starts_def)
  then have "length idx = n" by (simp add: idx)
  moreover have "\<forall>i\<in>set idx. i < n" using assms(1) by (auto simp: idx)
  ultimately show ?thesis by simp
qed

lemma ix_select_square:
  assumes "square n A" and "\<forall>i\<in>set idx. i < n"
  shows "ix_select A idx = Inr (map (\<lambda>i. map (\<lambda>k. A ! i ! k) idx) idx)"
proof -
  have len: "length A = n" and rows: "\<forall>row\<in>set A. length row = n"
    using assms(1) by (simp_all add: square_def list_all_iff)
  have "list_all (\<lambda>i. i < length A \<and> list_all (\<lambda>k. k < length (A ! i)) idx) idx"
    unfolding list_all_iff
  proof (intro ballI conjI)
    fix i assume i: "i \<in> set idx"
    then show "i < length A" using assms(2) len by simp
    fix k assume "k \<in> set idx"
    moreover have "length (A ! i) = n" using rows i assms(2) len by simp
    ultimately show "k < length (A ! i)" using assms(2) by simp
  qed
  then show ?thesis by (simp add: ix_select_def)
qed

lemma demo_permutation_10:
  "block_permutation (demo_rngs 0) 10 (ceil_sqrt 10) = Inr [2, 3, 4, 5, 1, 2, 3, 4, 1, 2]"
  by code_simp

text \<open>
  Claim C8. For \<open>n \<ge> 1\<close> and the block size \<open>ceil_sqrt n\<close>, a repetition's index
  generation returns, for every random source; the sequence has length exactly \<open>n\<close>, all
  its values are below \<open>n\<close>, and selecting the rows and columns of any \<open>n\<close> by \<open>n\<close> matrix
  with it raises no IndexError.
\<close>

theorem permuted_indices_in_bounds:
  assumes "1 \<le> n"
  shows "\<exists>permuted_indices.
           block_permutation src n (ceil_sqrt n) = Inr permuted_indices \<and>
           length permuted_indices = n \<and>
           (\<forall>i\<in>set permuted_indices. i < n) \<and>
           (\<forall>matrix_Y. square n matrix_Y \<longrightarrow>
              (\<exists>permuted_Y. ix_select matrix_Y permuted_indices = Inr permuted_Y))"
proof -
  obtain idx where idx: "block_permutation src n (ceil_sqrt n) = Inr idx"
    using block_permutation_Inr [OF assms] by blast
  note shape = block_permutation_shape [OF assms idx]
  have "\<exists>permuted_Y. ix_select matrix_Y idx = Inr permuted_Y" if "square n matrix_Y" for matrix_Y
    using ix_select_square [OF that] shape by blast
  then show ?thesis using idx shape by blast
qed

text \<open>An instance: ten observations, hence blocks of four.\<close>

theorem permuted_indices_in_bounds_witness:
  "(1::nat) \<le> 10 \<and>
   block_permutation (demo_rngs 0) 10 (ceil_sqrt 10) = Inr [2, 3, 4, 5, 1, 2, 3, 4, 1, 2] \<and>
   length [2, 3, 4, 5, 1, 2, 3, 4, 1, 2 :: nat] = 10 \<and>
   list_all (\<lambda>i. i < 10) [2, 3, 4, 5, 1, 2, 3, 4, 1, 2 :: nat] \<and>
   (\<exists>permuted_Y. ix_select zeros10 [2, 3, 4, 5, 1, 2, 3, 4, 1, 2] = Inr permuted_Y)"
proof -
  have ten: "(1::nat) \<le> 10" by simp
  have sq: "square 10 zeros10" by code_simp
  obtain idx where idx: "block_permutation (demo_rngs 0) 10 (ceil_sqrt 10) = Inr idx"
    and len: "length idx = 10" and bound: "\<forall>i\<in>set idx. i < 10"
    and sel: "\<forall>matrix_Y. square 10 matrix_Y \<longrightarrow> (\<exists>permuted_Y. ix_select matrix_Y idx = Inr permuted_Y)"
    using permuted_indices_in_bounds [OF ten, of "demo_rngs 0"] by blast
  have eq: "idx = [2, 3, 4, 5, 1, 2, 3, 4, 1, 2]"
    using idx unfolding demo_permutation_10 by simp
  show ?thesis
    using ten demo_permutation_10 len bound sel sq unfolding eq list_all_iff by blast
qed

text \<open>
  Claim C2, as amended. For \<open>n \<ge> 1\<close>, with \<open>block_size\<close> the ceiling of the square root
  of \<open>n\<close>, a permutation repetition draws exactly \<open>n div block_size + 1\<close> block starts (the
  quotient is rounded down, not up), each below \<open>n\<close> and with replacement, so that every
  list of that many values below \<open>n\<close> can be drawn; the blocks of \<open>block_size\<close>
  consecutive indices that begin at the starts are concatenated, cut to the first \<open>n\<close>
  indices and reduced modulo \<open>n\<close>.
\<close>

theorem block_starts_drawn:
  assumes "1 \<le> n"
  shows "int (ceil_sqrt n) = \<lceil>sqrt (real n)\<rceil> \<and>
         (\<exists>starts.
            random_choice src n (num_draws n (ceil_sqrt n)) = Inr starts \<and>
            length starts = n div ceil_sqrt n + 1 \<and>
            (\<forall>t\<in>set starts. t < n) \<and>
            block_permutation src n (ceil_sqrt n)
              = Inr (map (\<lambda>i. i mod n)
                      (take n (concat (map (\<lambda>t. [t..<t + ceil_sqrt n]) starts))))) \<and>
         (\<forall>ds. length ds = n div ceil_sqrt n + 1 \<and> (\<forall>d\<in>set ds. d < n) \<longrightarrow>
            (\<exists>src'. random_choice src' n (num_draws n (ceil_sqrt n)) = Inr ds))"
proof -
  define starts where "starts = map (\<lambda>i. src i mod n) [0..<num_draws n (ceil_sqrt n)]"
  have rc: "random_choice src n (num_draws n (ceil_sqrt n)) = Inr starts"
    using random_choice_Inr [OF assms] by (simp add: starts_def)
  have len: "length starts = n div ceil_sqrt n + 1"
    by (simp add: starts_def num_draws_def)
  have rng: "\<forall>t\<in>set starts. t < n" using assms by (auto simp: starts_def)
  have bp: "block_permutation src n (ceil_sqrt n)
              = Inr (map (\<lambda>i. i mod n)
                      (take n (concat (map (\<lambda>t. [t..<t + ceil_sqrt n]) starts))))"
    using block_permutation_Inr [OF assms, of src] by (simp add: starts_def blocks_of_def)
  have any: "\<exists>src'. random_choice src' n (num_draws n (ceil_sqrt n)) = Inr ds"
    if "length ds = n div ceil_sqrt n + 1 \<and> (\<forall>d\<in>set ds. d < n)" for ds
    using random_choice_any [of ds n] that by (auto simp: num_draws_def)
  show ?thesis using ceil_sqrt_real rc len rng bp any by blast
qed

lemma demo_draws_10:
  "random_choice (demo_rngs 0) 10 (num_draws 10 (ceil_sqrt 10)) = Inr [2, 1, 1]"
  by code_simp

lemma ceil_sqrt_10: "ceil_sqrt 10 = 4"
  by code_simp

text \<open>An instance: ten observations, three starts, blocks of four.\<close>

theorem block_starts_drawn_witness:
  "(1::nat) \<le> 10 \<and>
   \<lceil>sqrt (real 10)\<rceil> = 4 \<and>
   random_choice (demo_rngs 0) 10 (num_draws 10 (ceil_sqrt 10)) = Inr [2, 1, 1] \<and>
   length [2, 1, 1 :: nat] = 10 div ceil_sqrt 10 + 1 \<and>
   block_permutation (demo_rngs 0) 10 (ceil_sqrt 10)
     = Inr (map (\<lambda>i. i mod 10) (take 10 (concat (map (\<lambda>t. [t..<t + ceil_sqrt 10]) [2, 1, 1]))))"
proof -
  have ten: "(1::nat) \<le> 10" by simp
  note inst = block_starts_drawn [OF ten, of "demo_rngs 0"]
  have root: "\<lceil>sqrt (real 10)\<rceil> = 4"
    using conjunct1 [OF inst] by (simp add: ceil_sqrt_10)
  obtain starts where rc: "random_choice (demo_rngs 0) 10 (num_draws 10 (ceil_sqrt 10)) = Inr starts"
    and len: "length starts = 10 div ceil_sqrt 10 + 1"
    and bp: "block_permutation (demo_rngs 0) 10 (ceil_sqrt 10)
      = Inr (map (\<lambda>i. i mod 10) (take 10 (concat (map (\<lambda>t. [t..<t + ceil_sqrt 10]) starts))))"
    using conjunct1 [OF conjunct2 [OF inst]] by blast
  have eq: "starts = [2, 1, 1]"
    using rc unfolding demo_draws_10 by simp
  show ?thesis
    using ten root demo_draws_10 len bp unfolding eq by blast
qed

text \<open>
  The claim as stated fails for ten observations: the block size is 4, the repetition
  draws 3 starts, and the ceiling of \<open>10 / 4\<close> plus one is 4.
\<close>

theorem block_starts_counterexample:
  "random_choice (demo_rngs 0) 10 (num_draws 10 (ceil_sqrt 10)) = Inr [2, 1, 1] \<and>
   block_permutation (demo_rngs 0) 10 (ceil_sqrt 10) = Inr [2, 3, 4, 5, 1, 2, 3, 4, 1, 2] \<and>
   int (length [2, 1, 1 :: nat]) \<noteq> \<lceil>real 10 / real (ceil_sqrt 10)\<rceil> + 1"
  using demo_draws_10 demo_permutation_10 by (simp add: ceil_sqrt_10)

section \<open>The exact p-value\<close>

lemma run_all_length: "run_all f reps = Inr rs \<Longrightarrow> length rs = length reps"
  by (induction reps arbitrary: rs) (auto split: sum.splits)

lemma empirical_p_value_formula:
  assumes "1 \<le> rf" and "empirical_p_value null stat rf = Inr p"
  shows "p = (if length (filter (\<lambda>s. s > stat) null) = 0 then 1 / real_of_int rf
              else real (length (filter (\<lambda>s. s > stat) null)) / real_of_int rf)"
  using assms by (auto simp: empirical_p_value_def Let_def)

lemma empirical_p_value_range:
  assumes "1 \<le> rf" and "length null = nat rf" and "empirical_p_value null stat rf = Inr p"
  shows "0 < p \<and> p \<le> 1"
proof -
  define q where "q = real (length (filter (\<lambda>s. s > stat) null)) / real_of_int rf"
  have rfpos: "0 < real_of_int rf" and rf1: "1 \<le> real_of_int rf" using assms(1) by simp_all
  have cle: "real (length (filter (\<lambda>s. s > stat) null)) \<le> real_of_int rf"
  proof -
    have "length (filter (\<lambda>s. s > stat) null) \<le> length null" by (rule length_filter_le)
    then have "int (length (filter (\<lambda>s. s > stat) null)) \<le> rf" using assms(1,2) by simp
    then show ?thesis by (metis of_int_le_iff of_int_of_nat_eq)
  qed
  have q0: "0 \<le> q" unfolding q_def using rfpos by simp
  have q1: "q \<le> 1" unfolding q_def using cle rfpos by simp
  have p: "p = (if q = 0 then 1 / real_of_int rf else q)"
    using assms(1,3) unfolding q_def by (simp add: empirical_p_value_def Let_def)
  show ?thesis
  proof (cases "q = 0")
    case True
    then have "p = 1 / real_of_int rf" using p by simp
    then show ?thesis using rfpos rf1 by simp
  next
    case False
    then have "p = q" using p by simp
    then show ?thesis using False q0 q1 by simp
  qed
qed

lemma p_value_exact_parts:
  assumes "p_value cd cdf rngs self X Y rf False = Inr (p, null)"
  shows "\<exists>dist_X dist_Y statistic md.
           distance_matrices cd self X Y = Inr (dist_X, dist_Y) \<and>
           test_statistic_compute cd self (Arr2 dist_X) (Arr2 dist_Y) = Inr (statistic, md) \<and>
           run_all (\<lambda>rep. worker cd self (shape0 X) (ceil_sqrt (shape0 X)) dist_X dist_Y (rngs rep))
             [0..<nat rf] = Inr null \<and>
           empirical_p_value null statistic rf = Inr p"
  using assms
  by (auto simp: p_value_def Let_def split: sum.splits prod.splits)

text \<open>
  With \<open>replication_factor \<ge> 1\<close> the last step always returns: the count divided by
  \<open>replication_factor\<close>, or \<open>1 / replication_factor\<close> when the count is zero.
\<close>

lemma empirical_p_value_returns:
  assumes "1 \<le> rf"
  shows "empirical_p_value null stat rf =
           Inr (if length (filter (\<lambda>s. s > stat) null) = 0 then 1 / real_of_int rf
                else real (length (filter (\<lambda>s. s > stat) null)) / real_of_int rf)"
  using assms by (auto simp: empirical_p_value_def Let_def)

lemma p_value_exact_returns:
  assumes "1 \<le> rf"
      and "distance_matrices cd self X Y = Inr (dist_X, dist_Y)"
      and "test_statistic_compute cd self (Arr2 dist_X) (Arr2 dist_Y) = Inr (statistic, md)"
      and "run_all (\<lambda>rep. worker cd self (shape0 X) (ceil_sqrt (shape0 X)) dist_X dist_Y (rngs rep))
             [0..<nat rf] = Inr null"
  shows "p_value cd cdf rngs self X Y rf False =
           Inr (if length (filter (\<lambda>s. s > statistic) null) = 0 then 1 / real_of_int rf
                else real (length (filter (\<lambda>s. s > statistic) null)) / real_of_int rf, null)"
  unfolding p_value_def assms(2) Let_def
  by (simp add: assms(3,4) empirical_p_value_returns [OF assms(1)])

text \<open>
  Claim C3. With \<open>replication_factor \<ge> 1\<close>, the exact path of \<^verbatim>\<open>p_value\<close> returns the p-value
  \<open>p\<close> with the null distribution \<open>test_stats_null\<close> exactly when the distance transform, the
  observed statistic (line 167) and all repetitions return, \<open>test_stats_null\<close> holds the
  statistics of the repetitions, and \<open>p\<close> is the number of null samples strictly greater
  than the observed statistic divided by \<open>replication_factor\<close>, or \<open>1 / replication_factor\<close>
  when that number is zero. The null distribution then has \<open>replication_factor\<close> samples and
  \<open>p\<close> is greater than 0 and at most 1.
\<close>

theorem exact_p_value_formula_and_range:
  assumes "1 \<le> replication_factor"
  shows "(p_value compute_distance norm_cdf rngs self matrix_X matrix_Y replication_factor False
            = Inr (p, test_stats_null)) =
         (\<exists>dist_X dist_Y statistic md.
            distance_matrices compute_distance self matrix_X matrix_Y = Inr (dist_X, dist_Y) \<and>
            test_statistic_compute compute_distance self (Arr2 dist_X) (Arr2 dist_Y)
              = Inr (statistic, md) \<and>
            run_all (\<lambda>rep. worker compute_distance self (shape0 matrix_X)
                             (ceil_sqrt (shape0 matrix_X)) dist_X dist_Y (rngs rep))
              [0..<nat replication_factor] = Inr test_stats_null \<and>
            p = (if length (filter (\<lambda>s. s > statistic) test_stats_null) = 0
                 then 1 / real_of_int replication_factor
                 else real (length (filter (\<lambda>s. s > statistic) test_stats_null))
                        / real_of_int replication_factor)) \<and>
         (p_value compute_distance norm_cdf rngs self matrix_X matrix_Y replication_factor False
            = Inr (p, test_stats_null) \<longrightarrow>
          length test_stats_null = nat replication_factor \<and> 0 < p \<and> p \<le> 1)"
proof (intro conjI iffI impI)
  assume ret: "p_value compute_distance norm_cdf rngs self matrix_X matrix_Y replication_factor False
            = Inr (p, test_stats_null)"
  obtain dist_X dist_Y statistic md where
    dm: "distance_matrices compute_distance self matrix_X matrix_Y = Inr (dist_X, dist_Y)" and
    ts: "test_statistic_compute compute_distance self (Arr2 dist_X) (Arr2 dist_Y) = Inr (statistic, md)" and
    ra: "run_all (\<lambda>rep. worker compute_distance self (shape0 matrix_X) (ceil_sqrt (shape0 matrix_X))
            dist_X dist_Y (rngs rep)) [0..<nat replication_factor] = Inr test_stats_null" and
    ep: "empirical_p_value test_stats_null statistic replication_factor = Inr p"
    using p_value_exact_parts [OF ret] by blast
  have len: "length test_stats_null = nat replication_factor"
    using run_all_length [OF ra] by simp
  show "\<exists>dist_X dist_Y statistic md.
            distance_matrices compute_distance self matrix_X matrix_Y = Inr (dist_X, dist_Y) \<and>
            test_statistic_compute compute_distance self (Arr2 dist_X) (Arr2 dist_Y)
              = Inr (statistic, md) \<and>
            run_all (\<lambda>rep. worker compute_distance self (shape0 matrix_X)
                             (ceil_sqrt (shape0 matrix_X)) dist_X dist_Y (rngs rep))
              [0..<nat replication_factor] = Inr test_stats_null \<and>
            p = (if length (filter (\<lambda>s. s > statistic) test_stats_null) = 0
                 then 1 / real_of_int replication_factor
                 else real (length (filter (\<lambda>s. s > statistic) test_stats_null))
                        / real_of_int replication_factor)"
    using dm ts ra empirical_p_value_formula [OF assms ep] by blast
  show "length test_stats_null = nat replication_factor" by (rule len)
  show "0 < p" "p \<le> 1"
    using empirical_p_value_range [OF assms len ep] by simp_all
next
  assume "\<exists>dist_X dist_Y statistic md.
            distance_matrices compute_distance self matrix_X matrix_Y = Inr (dist_X, dist_Y) \<and>
            test_statistic_compute compute_distance self (Arr2 dist_X) (Arr2 dist_Y)
              = Inr (statistic, md) \<and>
            run_all (\<lambda>rep. worker compute_distance self (shape0 matrix_X)
                             (ceil_sqrt (shape0 matrix_X)) dist_X dist_Y (rngs rep))
              [0..<nat replication_factor] = Inr test_stats_null \<and>
            p = (if length (filter (\<lambda>s. s > statistic) test_stats_null) = 0
                 then 1 / real_of_int replication_factor
                 else real (length (filter (\<lambda>s. s > statistic) test_stats_null))
                        / real_of_int replication_factor)"
  then obtain dist_X dist_Y statistic md where
    dm: "distance_matrices compute_distance self matrix_X matrix_Y = Inr (dist_X, dist_Y)" and
    ts: "test_statistic_compute compute_distance self (Arr2 dist_X) (Arr2 dist_Y) = Inr (statistic, md)" and
    ra: "run_all (\<lambda>rep. worker compute_distance self (shape0 matrix_X) (ceil_sqrt (shape0 matrix_X))
            dist_X dist_Y (rngs rep)) [0..<nat replication_factor] = Inr test_stats_null" and
    p: "p = (if length (filter (\<lambda>s. s > statistic) test_stats_null) = 0
                 then 1 / real_of_int replication_factor
                 else real (length (filter (\<lambda>s. s > statistic) test_stats_null))
                        / real_of_int replication_factor)"
    by blast
  show "p_value compute_distance norm_cdf rngs self matrix_X matrix_Y replication_factor False
            = Inr (p, test_stats_null)"
    using p_value_exact_returns [OF assms dm ts ra, of norm_cdf] p by simp
qed

text \<open>
  Two instances on three observations. With four repetitions whose permutation is
  \<open>[0, 1, 0]\<close>, no null statistic exceeds the observed 21 and the p-value is \<open>1 / 4\<close>; with
  the two repetitions \<open>[2, 0, 1]\<close> and \<open>[0, 1, 0]\<close>, one of the null statistics 25 and 19 does,
  and the p-value is \<open>1 / 2\<close>.
\<close>

lemma demo_distance:
  "distance_matrices demo_transform demo_test (Arr2 demo_X) (Arr2 demo_Y) = Inr (demo_X, demo_Y)"
  by code_simp

lemma demo_workers_zero:
  "run_all (\<lambda>rep. worker demo_transform demo_test 3 (ceil_sqrt 3) demo_X demo_Y (zero_rngs rep))
     [0..<nat 4] = Inr [19, 19, 19, 19]"
proof -
  have w: "worker demo_transform demo_test 3 (ceil_sqrt 3) demo_X demo_Y (zero_rngs rep) = Inr 19"
    for rep
  proof -
    have "zero_rngs rep = zero_rngs 0" by (rule ext) (simp add: zero_rngs_def)
    moreover have "worker demo_transform demo_test 3 (ceil_sqrt 3) demo_X demo_Y (zero_rngs 0) = Inr 19"
      by code_simp
    ultimately show ?thesis by simp
  qed
  have four: "[0..<nat 4] = [0, 1, 2, 3]" by (simp add: upt_rec)
  show ?thesis unfolding four by (simp add: w)
qed

lemma demo_workers:
  "run_all (\<lambda>rep. worker demo_transform demo_test 3 (ceil_sqrt 3) demo_X demo_Y (demo_rngs rep))
     [0..<nat 2] = Inr [25, 19]"
proof -
  have w0: "worker demo_transform demo_test 3 (ceil_sqrt 3) demo_X demo_Y (demo_rngs 0) = Inr 25"
    by code_simp
  have w1: "worker demo_transform demo_test 3 (ceil_sqrt 3) demo_X demo_Y (demo_rngs (Suc 0)) = Inr 19"
    by code_simp
  have two: "[0..<nat 2] = [0, Suc 0]" by (simp add: upt_rec)
  show ?thesis unfolding two by (simp add: w0 w1)
qed

theorem exact_p_value_formula_and_range_witness:
  "(1::int) \<le> 4 \<and>
   test_statistic_compute demo_transform demo_test (Arr2 demo_X) (Arr2 demo_Y)
     = Inr (21, \<lparr>optimal_lag = 0, optimal_scale = (3, 3), dependence_by_lag = [21]\<rparr>) \<and>
   length (filter (\<lambda>s. s > 21) [19, 19, 19, 19 :: real]) = 0 \<and>
   p_value demo_transform demo_cdf zero_rngs demo_test (Arr2 demo_X) (Arr2 demo_Y) 4 False
     = Inr (1 / 4, [19, 19, 19, 19]) \<and>
   length [19, 19, 19, 19 :: real] = nat 4 \<and> (0 :: real) < 1 / 4 \<and> (1 / 4 :: real) \<le> 1 \<and>
   (1::int) \<le> 2 \<and>
   length (filter (\<lambda>s. s > 21) [25, 19 :: real]) = 1 \<and>
   p_value demo_transform demo_cdf demo_rngs demo_test (Arr2 demo_X) (Arr2 demo_Y) 2 False
     = Inr (1 / 2, [25, 19]) \<and>
   length [25, 19 :: real] = nat 2 \<and> (0 :: real) < 1 / 2 \<and> (1 / 2 :: real) \<le> 1"
proof -
  have n: "shape0 (Arr2 demo_X) = 3" by (simp add: demo_X_def)
  have four: "(1::int) \<le> 4" and two: "(1::int) \<le> 2" by simp_all
  note floor_case = exact_p_value_formula_and_range [OF four,
      of demo_transform demo_cdf zero_rngs demo_test "Arr2 demo_X" "Arr2 demo_Y"
         "1 / 4" "[19, 19, 19, 19]", unfolded n]
  have parts4: "\<exists>dist_X dist_Y statistic md.
      distance_matrices demo_transform demo_test (Arr2 demo_X) (Arr2 demo_Y) = Inr (dist_X, dist_Y) \<and>
      test_statistic_compute demo_transform demo_test (Arr2 dist_X) (Arr2 dist_Y) = Inr (statistic, md) \<and>
      run_all (\<lambda>rep. worker demo_transform demo_test 3 (ceil_sqrt 3) dist_X dist_Y (zero_rngs rep))
        [0..<nat 4] = Inr [19, 19, 19, 19] \<and>
      (1 / 4 :: real) = (if length (filter (\<lambda>s. s > statistic) [19, 19, 19, 19]) = 0
                          then 1 / real_of_int 4
                          else real (length (filter (\<lambda>s. s > statistic) [19, 19, 19, 19]))
                                 / real_of_int 4)"
  proof -
    have "(1 / 4 :: real) = (if length (filter (\<lambda>s. s > 21) [19, 19, 19, 19 :: real]) = 0
                          then 1 / real_of_int 4
                          else real (length (filter (\<lambda>s. s > 21) [19, 19, 19, 19 :: real]))
                                 / real_of_int 4)"
      by simp
    then show ?thesis using demo_distance demo_lag0_run demo_workers_zero by blast
  qed
  have run4: "p_value demo_transform demo_cdf zero_rngs demo_test (Arr2 demo_X) (Arr2 demo_Y) 4 False
     = Inr (1 / 4, [19, 19, 19, 19])"
    using conjunct1 [OF floor_case] parts4 by blast
  have range4: "length [19, 19, 19, 19 :: real] = nat 4 \<and> (0 :: real) < 1 / 4 \<and> (1 / 4 :: real) \<le> 1"
    using conjunct2 [OF floor_case] run4 by blast
  note count_case = exact_p_value_formula_and_range [OF two,
      of demo_transform demo_cdf demo_rngs demo_test "Arr2 demo_X" "Arr2 demo_Y"
         "1 / 2" "[25, 19]", unfolded n]
  have parts2: "\<exists>dist_X dist_Y statistic md.
      distance_matrices demo_transform demo_test (Arr2 demo_X) (Arr2 demo_Y) = Inr (dist_X, dist_Y) \<and>
      test_statistic_compute demo_transform demo_test (Arr2 dist_X) (Arr2 dist_Y) = Inr (statistic, md) \<and>
      run_all (\<lambda>rep. worker demo_transform demo_test 3 (ceil_sqrt 3) dist_X dist_Y (demo_rngs rep))
        [0..<nat 2] = Inr [25, 19] \<and>
      (1 / 2 :: real) = (if length (filter (\<lambda>s. s > statistic) [25, 19]) = 0
                          then 1 / real_of_int 2
                          else real (length (filter (\<lambda>s. s > statistic) [25, 19]))
                                 / real_of_int 2)"
  proof -
    have "(1 / 2 :: real) = (if length (filter (\<lambda>s. s > 21) [25, 19 :: real]) = 0
                          then 1 / real_of_int 2
                          else real (length (filter (\<lambda>s. s > 21) [25, 19 :: real]))
                                 / real_of_int 2)"
      by simp
    then show ?thesis using demo_distance demo_lag0_run demo_workers by blast
  qed
  have run2: "p_value demo_transform demo_cdf demo_rngs demo_test (Arr2 demo_X) (Arr2 demo_Y) 2 False
     = Inr (1 / 2, [25, 19])"
    using conjunct1 [OF count_case] parts2 by blast
  have range2: "length [25, 19 :: real] = nat 2 \<and> (0 :: real) < 1 / 2 \<and> (1 / 2 :: real) \<le> 1"
    using conjunct2 [OF count_case] run2 by blast
  show ?thesis
    using four two demo_lag0_run run4 range4 run2 range2 by simp
qed

section \<open>An accepted one-dimensional input\<close>

text \<open>
  An instance of claim C10: the observations 0, 1, 2 and 0, 4, 1 given as one-dimensional
  arrays, with the city-block metric. The entry stage produces the two distance
  matrices, \<^verbatim>\<open>test_statistic\<close> returns the statistic 21 and stores it, and the exact path of
  \<^verbatim>\<open>p_value\<close> returns with two repetitions.
\<close>

lemma column_transform:
  "demo_transform (compute_distance_matrix column_test)
     (map (\<lambda>x. [x]) [0, 1, 2]) (map (\<lambda>y. [y]) [0, 4, 1]) = Inr (demo_X, demo_Y)"
  by code_simp

lemma column_lag_search:
  "lag_search_outcome column_test 3 demo_X demo_Y
     = Inr (Some (21, \<lparr>optimal_lag = 0, optimal_scale = (3, 3), dependence_by_lag = [21]\<rparr>))"
  by code_simp

lemma column_observed:
  "test_statistic_compute demo_transform column_test (Arr2 demo_X) (Arr2 demo_Y)
     = Inr (141, \<lparr>optimal_lag = 0, optimal_scale = (3, 3), dependence_by_lag = [141]\<rparr>)"
  by code_simp

lemma column_workers:
  "run_all (\<lambda>rep. worker demo_transform column_test 3 (ceil_sqrt 3) demo_X demo_Y (demo_rngs rep))
     [0..<nat 2] = Inr [153, 147]"
proof -
  have w0: "worker demo_transform column_test 3 (ceil_sqrt 3) demo_X demo_Y (demo_rngs 0) = Inr 153"
    by code_simp
  have w1: "worker demo_transform column_test 3 (ceil_sqrt 3) demo_X demo_Y (demo_rngs (Suc 0)) = Inr 147"
    by code_simp
  have two: "[0..<nat 2] = [0, Suc 0]" by (simp add: upt_rec)
  show ?thesis unfolding two by (simp add: w0 w1)
qed

theorem one_dimensional_input_reshaped_witness:
  "distance_matrices demo_transform column_test (Arr1 [0, 1, 2]) (Arr1 [0, 4, 1])
     = Inr (demo_X, demo_Y) \<and>
   test_statistic demo_transform column_test (Arr1 [0, 1, 2]) (Arr1 [0, 4, 1])
     = (Inr (21, \<lparr>optimal_lag = 0, optimal_scale = (3, 3), dependence_by_lag = [21]\<rparr>),
        column_test\<lparr>test_statistic_metadata_attr :=
                      Assigned \<lparr>optimal_lag = 0, optimal_scale = (3, 3), dependence_by_lag = [21]\<rparr>,
                    test_statistic_attr := Assigned 21\<rparr>) \<and>
   test_statistic demo_transform column_test (Arr1 [0, 1, 2]) (Arr1 [0, 4, 1])
     = test_statistic demo_transform column_test (Arr2 [[0], [1], [2]]) (Arr1 [0, 4, 1]) \<and>
   p_value demo_transform demo_cdf demo_rngs column_test (Arr1 [0, 1, 2]) (Arr1 [0, 4, 1]) 2 False
     = Inr (1, [153, 147]) \<and>
   p_value demo_transform demo_cdf demo_rngs column_test (Arr1 [0, 1, 2]) (Arr1 [0, 4, 1]) 2 False
     = p_value demo_transform demo_cdf demo_rngs column_test (Arr2 [[0], [1], [2]]) (Arr1 [0, 4, 1]) 2 False"
proof -
  note inst = one_dimensional_input_reshaped [where cd = demo_transform and self = column_test
      and xs = "[0, 1, 2]" and ys = "[0, 4, 1]" and Y = "Arr1 [0, 4, 1]"
      and X = "Arr1 [0, 1, 2]" and A = "[]" and B = "[]"
      and cdf = demo_cdf and rngs = demo_rngs and rf = 2 and is_fast = False]
  have dm: "distance_matrices demo_transform column_test (Arr1 [0, 1, 2]) (Arr1 [0, 4, 1])
     = Inr (demo_X, demo_Y)"
    using conjunct1 [OF inst] column_transform by simp
  have n: "shape0 (Arr1 [0, 1, 2]) = 3" by simp
  have out: "test_statistic_outcome demo_transform column_test (Arr1 [0, 1, 2]) (Arr1 [0, 4, 1])
     = Inr (Some (21, \<lparr>optimal_lag = 0, optimal_scale = (3, 3), dependence_by_lag = [21]\<rparr>))"
    unfolding test_statistic_outcome_def dm n sum.case prod.case column_lag_search
    by (rule refl)
  have ts: "test_statistic demo_transform column_test (Arr1 [0, 1, 2]) (Arr1 [0, 4, 1])
     = (Inr (21, \<lparr>optimal_lag = 0, optimal_scale = (3, 3), dependence_by_lag = [21]\<rparr>),
        column_test\<lparr>test_statistic_metadata_attr :=
                      Assigned \<lparr>optimal_lag = 0, optimal_scale = (3, 3), dependence_by_lag = [21]\<rparr>,
                    test_statistic_attr := Assigned 21\<rparr>)"
    unfolding test_statistic_def out by simp
  have one: "(1::int) \<le> 2" by simp
  have pv: "p_value demo_transform demo_cdf demo_rngs column_test (Arr1 [0, 1, 2]) (Arr1 [0, 4, 1]) 2 False
     = Inr (1, [153, 147])"
    using p_value_exact_returns [OF one dm column_observed column_workers [folded n], of demo_cdf]
    by simp
  have same_ts: "test_statistic demo_transform column_test (Arr1 [0, 1, 2]) (Arr1 [0, 4, 1])
     = test_statistic demo_transform column_test (Arr2 [[0], [1], [2]]) (Arr1 [0, 4, 1])"
    using inst [THEN conjunct2, THEN conjunct2, THEN conjunct2, THEN conjunct1] by simp
  have same_pv: "p_value demo_transform demo_cdf demo_rngs column_test (Arr1 [0, 1, 2]) (Arr1 [0, 4, 1]) 2 False
     = p_value demo_transform demo_cdf demo_rngs column_test (Arr2 [[0], [1], [2]]) (Arr1 [0, 4, 1]) 2 False"
    using inst [THEN conjunct2, THEN conjunct2, THEN conjunct2, THEN conjunct2, THEN conjunct2,
        THEN conjunct1]
    by simp
  show ?thesis using dm ts same_ts pv same_pv by (intro conjI)
qed

section \<open>The fast path\<close>

lemma subsample_loop_length:
  "subsample_loop cd self A B ss is null = Inr null' \<Longrightarrow> length null' = length null"
proof (induction "is" arbitrary: null)
  case Nil
  then show ?case by simp
next
  case (Cons i rest)
  then show ?case
    by (auto simp: Let_def split: sum.splits prod.splits if_splits)
qed

lemma subsample_loop_untouched:
  "subsample_loop cd self A B ss is null = Inr null' \<Longrightarrow> k \<notin> set is \<Longrightarrow> null' ! k = null ! k"
proof (induction "is" arbitrary: null)
  case Nil
  then show ?case by simp
next
  case (Cons i rest)
  then show ?case
    by (auto simp: Let_def split: sum.splits prod.splits if_splits)
qed

text \<open>
  Whenever the fast path returns, its null distribution has
  \<open>num_samples * subsample_size\<close> entries, the entries from index \<open>num_samples\<close> on are the
  zeros the array was created with, and the Normal distribution is fitted to the mean and
  the standard deviation of all these entries.
\<close>

lemma fast_p_value_Inr:
  assumes "fast_p_value cd cdf src self A B stat bs ss = Inr (p, null)"
  shows "length null = num_samples_of (length A) ss * ss \<and>
         (\<forall>k. num_samples_of (length A) ss \<le> k \<and> k < length null \<longrightarrow> null ! k = 0) \<and>
         p = 1 - cdf stat (sum_list null / real (num_samples_of (length A) ss * ss))
                   (np_std null / sqrt (real (num_samples_of (length A) ss)))"
proof -
  define m where "m = num_samples_of (length A) ss"
  from assms obtain PB where
    loop: "subsample_loop cd self A PB ss [0..<m] (initial_null m ss) = Inr null" and
    p: "p = 1 - cdf stat (np_mean null) (np_std null / sqrt (real m))"
    by (auto simp: fast_p_value_def Let_def m_def split: sum.splits prod.splits if_splits)
  have len: "length null = m * ss"
    using subsample_loop_length [OF loop] by (simp add: initial_null_def)
  have pad: "null ! k = 0" if "m \<le> k \<and> k < length null" for k
  proof -
    have "k \<notin> set [0..<m]" using that by simp
    then have "null ! k = initial_null m ss ! k"
      using subsample_loop_untouched [OF loop] by simp
    then show ?thesis using that len by (simp add: initial_null_def)
  qed
  show ?thesis using len pad p unfolding m_def [symmetric] by (simp add: np_mean_def)
qed

lemma zeros_distance:
  "distance_matrices demo_transform demo_test (Arr2 zeros10) (Arr2 zeros10) = Inr (zeros10, zeros10)"
  by code_simp

lemma zeros_statistic:
  "test_statistic_compute demo_transform demo_test (Arr2 zeros10) (Arr2 zeros10)
     = Inr (10, \<lparr>optimal_lag = 0, optimal_scale = (10, 10), dependence_by_lag = [10]\<rparr>)"
  by code_simp

lemma zeros_permuted: "ix_select zeros10 [2, 3, 4, 5, 1, 2, 3, 4, 1, 2] = Inr zeros10"
  by code_simp

lemma zeros_loop:
  "subsample_loop demo_transform demo_test zeros10 zeros10 10 [0..<1] (initial_null 1 10)
     = Inr [10, 0, 0, 0, 0, 0, 0, 0, 0, 0]"
  by code_simp

lemma zeros_mean: "np_mean [10, 0, 0, 0, 0, 0, 0, 0, 0, 0] = 1"
  by (simp add: np_mean_def)

lemma zeros_std: "np_std [10, 0, 0, 0, 0, 0, 0, 0, 0, 0] = 3"
proof -
  have "np_mean (map (\<lambda>x. (x - 1)\<^sup>2) [10, 0, 0, 0, 0, 0, 0, 0, 0, 0 :: real]) = 3\<^sup>2"
    by (simp add: np_mean_def)
  then show ?thesis unfolding np_std_def zeros_mean by (simp del: map_eq_conv list.map)
qed

lemma zeros_samples: "num_samples_of 10 10 = 1"
  by code_simp

text \<open>
  Claim C1 at a concrete input: ten observations, so that \<open>num_samples = 1\<close>. The null
  sample set returned has ten entries, the statistic 10 of the only block followed by
  nine zeros, and the Normal distribution has the mean 1 and the scale 3 of these ten
  entries; the one statistic alone has the mean 10.
\<close>

theorem fast_path_null_set_at_ten_observations:
  "p_value demo_transform norm_cdf demo_rngs demo_test (Arr2 zeros10) (Arr2 zeros10) 1000 True
     = Inr (1 - norm_cdf 10 1 3, [10, 0, 0, 0, 0, 0, 0, 0, 0, 0]) \<and>
   num_samples_of (shape0 (Arr2 zeros10)) 10 = 1 \<and>
   np_mean [10] = 10"
proof -
  have len: "shape0 (Arr2 zeros10) = 10" "length zeros10 = 10" by (simp_all add: zeros10_def)
  have fast: "fast_p_value demo_transform norm_cdf (demo_rngs 0) demo_test zeros10 zeros10 10 (ceil_sqrt 10) 10
     = Inr (1 - norm_cdf 10 1 3, [10, 0, 0, 0, 0, 0, 0, 0, 0, 0])"
    unfolding fast_p_value_def len Let_def demo_permutation_10 sum.case zeros_permuted zeros_loop
      zeros_samples zeros_mean zeros_std
    by simp
  show ?thesis
    unfolding p_value_def zeros_distance len
    by (simp add: zeros_statistic fast zeros_samples np_mean_def)
qed

end
